theory Spec2Isabelle
  imports Complex_Main "HOL-Library.Word"
begin

section \<open>JavaScript strings\<close>

text \<open>
  A JavaScript string is a sequence of UTF-16 code units and \<open>.length\<close> counts code
  units, so a string is a list of 16-bit words and its length is the list's length.
  \<open>js\<close> embeds an ASCII literal of the source.
\<close>

type_synonym code_unit = "16 word"
type_synonym jsstring = "code_unit list"

definition js :: "string \<Rightarrow> jsstring" where
  "js s = map of_char s"

text \<open>
  \<open>String.prototype.trim\<close> removes the code units of the ECMAScript productions
  WhiteSpace and LineTerminator from both ends: TAB, LF, VT, FF, CR, SPACE, NBSP,
  U+1680, U+2000 to U+200A, U+2028, U+2029, U+202F, U+205F, U+3000 and U+FEFF.
\<close>

definition is_js_whitespace :: "code_unit \<Rightarrow> bool" where
  "is_js_whitespace c =
     (c = 0x09 \<or> c = 0x0A \<or> c = 0x0B \<or> c = 0x0C \<or> c = 0x0D \<or> c = 0x20 \<or> c = 0xA0
      \<or> c = 0x1680 \<or> (0x2000 \<le> c \<and> c \<le> 0x200A) \<or> c = 0x2028 \<or> c = 0x2029
      \<or> c = 0x202F \<or> c = 0x205F \<or> c = 0x3000 \<or> c = 0xFEFF)"

definition trim :: "jsstring \<Rightarrow> jsstring" where
  "trim s = rev (dropWhile is_js_whitespace (rev (dropWhile is_js_whitespace s)))"

text \<open>The character class \<open>[<>]\<close> of the sanitizer's regular expression.\<close>

definition is_angle_bracket :: "code_unit \<Rightarrow> bool" where
  "is_angle_bracket c = (c = 0x3C \<or> c = 0x3E)"

text \<open>\<open>s.replace(/[<>]/g, '')\<close>: every match of the class is deleted.\<close>

definition remove_angle_brackets :: "jsstring \<Rightarrow> jsstring" where
  "remove_angle_brackets s = filter (\<lambda>c. \<not> is_angle_bracket c) s"

section \<open>The input sanitizer\<close>

text \<open>\<open>sanitizeInput(input)\<close> is \<open>input.trim().replace(/[<>]/g, '')\<close>: trim first, then delete.\<close>

definition sanitizeInput :: "jsstring \<Rightarrow> jsstring" where
  "sanitizeInput input = remove_angle_brackets (trim input)"

section \<open>The validator\<close>

text \<open>
  \<open>validatePollInput\<close> returns \<open>{ isValid: true }\<close> or \<open>{ isValid: false, error }\<close>.
  On a string, \<open>!question\<close> holds exactly for the empty string, and \<open>!option\<close> likewise.
\<close>

datatype validation = Valid | Invalid jsstring

definition msg_question_short :: jsstring where
  "msg_question_short = js ''Question must be at least 3 characters long.''"

definition msg_question_long :: jsstring where
  "msg_question_long = js ''Question must be less than 500 characters.''"

definition msg_too_few_options :: jsstring where
  "msg_too_few_options = js ''At least 2 options are required.''"

definition msg_too_many_options :: jsstring where
  "msg_too_many_options = js ''Maximum 10 options allowed.''"

definition msg_option_empty :: jsstring where
  "msg_option_empty = js ''All options must have content.''"

definition msg_option_long :: jsstring where
  "msg_option_long = js ''Each option must be less than 200 characters.''"

text \<open>The \<open>for (const option of options)\<close> loop: both tests on one option, then the next.\<close>

fun validate_options_loop :: "jsstring list \<Rightarrow> validation" where
  "validate_options_loop [] = Valid"
| "validate_options_loop (option # rest) =
     (if option = [] \<or> length option < 1 then Invalid msg_option_empty
      else if length option > 200 then Invalid msg_option_long
      else validate_options_loop rest)"

definition validatePollInput :: "jsstring \<Rightarrow> jsstring list \<Rightarrow> validation" where
  "validatePollInput question options =
     (if question = [] \<or> length question < 3 then Invalid msg_question_short
      else if length question > 500 then Invalid msg_question_long
      else if length options < 2 then Invalid msg_too_few_options
      else if length options > 10 then Invalid msg_too_many_options
      else validate_options_loop options)"

text \<open>
  The validator as the specification words it, for comparison with the code: six rules
  checked one after the other, each of the last two over the whole option list.
\<close>

definition spec_validatePollInput :: "jsstring \<Rightarrow> jsstring list \<Rightarrow> validation" where
  "spec_validatePollInput question options =
     (if question = [] \<or> length question < 3 then Invalid msg_question_short
      else if length question > 500 then Invalid msg_question_long
      else if length options < 2 then Invalid msg_too_few_options
      else if length options > 10 then Invalid msg_too_many_options
      else if list_ex (\<lambda>option. option = []) options then Invalid msg_option_empty
      else if list_ex (\<lambda>option. length option > 200) options then Invalid msg_option_long
      else Valid)"

text \<open>The first option, in list order, that the loop rejects.\<close>

definition first_bad_option :: "jsstring list \<Rightarrow> jsstring option" where
  "first_bad_option options = find (\<lambda>option. option = [] \<or> length option > 200) options"

section \<open>Form data and exceptions\<close>

text \<open>
  A \<open>FormData\<close> object is an ordered list of entries; an entry's value is a string or a
  \<open>File\<close>. \<open>get\<close> returns the first value under a name or \<open>null\<close> (here \<open>None\<close>),
  \<open>getAll\<close> returns all of them in order.
\<close>

datatype form_value = FormString jsstring | FormFile

type_synonym form_data = "(jsstring \<times> form_value) list"

definition formData_get :: "form_data \<Rightarrow> jsstring \<Rightarrow> form_value option" where
  "formData_get fd name = map_option snd (find (\<lambda>entry. fst entry = name) fd)"

definition formData_getAll :: "form_data \<Rightarrow> jsstring \<Rightarrow> form_value list" where
  "formData_getAll fd name = map snd (filter (\<lambda>entry. fst entry = name) fd)"

text \<open>\<open>Boolean(v)\<close>, the predicate of \<open>.filter(Boolean)\<close>: only the empty string is falsy.\<close>

fun truthy :: "form_value \<Rightarrow> bool" where
  "truthy (FormString s) = (s \<noteq> [])"
| "truthy FormFile = True"

datatype js_exception = TypeError

datatype 'a outcome = Returned 'a | Threw js_exception

text \<open>
  \<open>sanitizeInput(v as string)\<close>: the cast is erased at run time, so \<open>input.trim()\<close> is
  evaluated on whatever \<open>v\<close> is. On \<open>null\<close> the property access throws a TypeError, and
  on a \<open>File\<close> the property \<open>trim\<close> is undefined and calling it throws a TypeError.
\<close>

fun sanitizeInput_cast :: "form_value option \<Rightarrow> jsstring outcome" where
  "sanitizeInput_cast (Some (FormString s)) = Returned (sanitizeInput s)"
| "sanitizeInput_cast (Some FormFile) = Threw TypeError"
| "sanitizeInput_cast None = Threw TypeError"

text \<open>\<open>vs.map(opt => sanitizeInput(opt as string))\<close>: the first exception ends the map.\<close>

fun map_sanitizeInput :: "form_value list \<Rightarrow> jsstring list outcome" where
  "map_sanitizeInput [] = Returned []"
| "map_sanitizeInput (v # vs) =
     (case sanitizeInput_cast (Some v) of
        Threw e \<Rightarrow> Threw e
      | Returned s \<Rightarrow>
          (case map_sanitizeInput vs of
             Threw e \<Rightarrow> Threw e
           | Returned ss \<Rightarrow> Returned (s # ss)))"

section \<open>Numbers\<close>

text \<open>
  A JavaScript number is a finite double, NaN or an infinity. Every finite double is a
  rational and the comparisons of the source are exact, so a finite number is its
  rational value (the two zeros coincide, as they do under \<open><\<close>, \<open>>\<close> and \<open>>=\<close>).
  \<open>JSNotNumber\<close> stands for any run-time value whose \<open>typeof\<close> is not \<open>'number'\<close>.
\<close>

datatype js_number = Finite rat | NaN | PosInfinity | NegInfinity

datatype js_value = JSNumber js_number | JSNotNumber

fun js_less :: "js_number \<Rightarrow> rat \<Rightarrow> bool" where
  "js_less (Finite r) c = (r < c)"
| "js_less NaN c = False"
| "js_less PosInfinity c = False"
| "js_less NegInfinity c = True"

fun js_greater :: "js_number \<Rightarrow> rat \<Rightarrow> bool" where
  "js_greater (Finite r) c = (r > c)"
| "js_greater NaN c = False"
| "js_greater PosInfinity c = True"
| "js_greater NegInfinity c = False"

fun js_greater_eq :: "js_number \<Rightarrow> rat \<Rightarrow> bool" where
  "js_greater_eq (Finite r) c = (r \<ge> c)"
| "js_greater_eq NaN c = False"
| "js_greater_eq PosInfinity c = True"
| "js_greater_eq NegInfinity c = False"

definition is_integer :: "rat \<Rightarrow> bool" where
  "is_integer r = (of_int (floor r) = r)"

section \<open>The identifier pattern\<close>

text \<open>
  \<open>/^[0-9a-f]{8}-[0-9a-f]{4}-[1-5][0-9a-f]{3}-[89ab][0-9a-f]{3}-[0-9a-f]{12}$/i\<close>:
  anchored at both ends, one character class per position, letters in either case.
\<close>

definition is_hex_digit :: "code_unit \<Rightarrow> bool" where
  "is_hex_digit c =
     ((0x30 \<le> c \<and> c \<le> 0x39) \<or> (0x61 \<le> c \<and> c \<le> 0x66) \<or> (0x41 \<le> c \<and> c \<le> 0x46))"

definition is_dash :: "code_unit \<Rightarrow> bool" where
  "is_dash c = (c = 0x2D)"

definition is_version_digit :: "code_unit \<Rightarrow> bool" where
  "is_version_digit c = (0x31 \<le> c \<and> c \<le> 0x35)"

definition is_variant_digit :: "code_unit \<Rightarrow> bool" where
  "is_variant_digit c =
     (c = 0x38 \<or> c = 0x39 \<or> c = 0x61 \<or> c = 0x62 \<or> c = 0x41 \<or> c = 0x42)"

fun matches_classes :: "(code_unit \<Rightarrow> bool) list \<Rightarrow> jsstring \<Rightarrow> bool" where
  "matches_classes [] [] = True"
| "matches_classes (cls # clss) (c # cs) = (cls c \<and> matches_classes clss cs)"
| "matches_classes [] (c # cs) = False"
| "matches_classes (cls # clss) [] = False"

definition uuid_classes :: "(code_unit \<Rightarrow> bool) list" where
  "uuid_classes =
     replicate 8 is_hex_digit @ [is_dash] @
     replicate 4 is_hex_digit @ [is_dash] @
     [is_version_digit] @ replicate 3 is_hex_digit @ [is_dash] @
     [is_variant_digit] @ replicate 3 is_hex_digit @ [is_dash] @
     replicate 12 is_hex_digit"

definition uuidRegex_test :: "jsstring \<Rightarrow> bool" where
  "uuidRegex_test ident = matches_classes uuid_classes ident"

section \<open>The data store and the authentication service\<close>

text \<open>
  The handlers reach a hosted database through the Supabase client; neither is part of
  the repository. The store is modelled from the schema in the repository's README and
  from what the client's query methods do: an \<open>eq\<close> filter keeps the rows whose column
  equals the given value, filters are conjoined, every query answers with data and an
  error of which one is null, and a query that fails changes nothing. The row-level
  security policies of that schema only narrow the rows a write can reach, and admit
  every insert the handlers make; they are not modelled.

  The two tables, with the columns of that schema:
  \<open>polls(id, user_id, question, options, created_at, updated_at)\<close> and
  \<open>votes(id, poll_id, user_id, option_index, created_at)\<close>, where \<open>votes.user_id\<close> is
  null for an anonymous vote and \<open>option_index\<close> is \<open>INTEGER NOT NULL\<close>. The schema has
  no uniqueness constraint on \<open>(poll_id, user_id)\<close>.
\<close>

record poll_row =
  poll_id :: jsstring
  poll_user_id :: jsstring
  poll_question :: jsstring
  poll_options :: "jsstring list"
  poll_created_at :: nat
  poll_updated_at :: nat

record vote_row =
  vote_id :: jsstring
  vote_poll_id :: jsstring
  vote_user_id :: "jsstring option"
  vote_option_index :: int
  vote_created_at :: nat

datatype store_call =
  SelectPolls | InsertPolls | UpdatePolls | DeletePolls | SelectVotes | InsertVotes

text \<open>What \<open>supabase.auth.getUser()\<close> finds for the current request.\<close>

datatype auth_state = SignedIn jsstring | SignedOut | AuthFailure jsstring

text \<open>
  Everything outside the request handlers that they read or change: the caller's session,
  the two tables, the round trips made to the store so far (\<open>calls\<close>), and the paths
  passed to \<open>revalidatePath\<close>. \<open>fault\<close> is the environment's choice of which round trips
  fail: round trip number \<open>n\<close> (counted from 0) fails with message \<open>m\<close> when
  \<open>fault n = Some m\<close>, and then changes nothing. It stands for every failure the store
  can report that is not written out below. \<open>new_id\<close> and \<open>clock\<close> stand for the
  column defaults \<open>gen_random_uuid()\<close> and \<open>NOW()\<close>. Identifiers are compared as strings.
\<close>

record world =
  auth :: auth_state
  polls :: "poll_row list"
  votes :: "vote_row list"
  calls :: "store_call list"
  fault :: "nat \<Rightarrow> jsstring option"
  new_id :: "nat \<Rightarrow> jsstring"
  clock :: nat
  revalidated :: "jsstring list"

text \<open>
  \<open>const { data: { user }, error } = await supabase.auth.getUser()\<close>: the pair
  \<open>(user, error)\<close>, holding the user's id and the error's message. When the lookup
  fails the user is null.
\<close>

definition getUser :: "world \<Rightarrow> jsstring option \<times> jsstring option" where
  "getUser w =
     (case auth w of
        SignedIn uid \<Rightarrow> (Some uid, None)
      | SignedOut \<Rightarrow> (None, None)
      | AuthFailure m \<Rightarrow> (None, Some m))"

text \<open>One round trip: it is recorded, and the environment says whether it fails.\<close>

definition round_trip :: "store_call \<Rightarrow> world \<Rightarrow> jsstring option \<times> world" where
  "round_trip c w = (fault w (length (calls w)), w\<lparr>calls := calls w @ [c]\<rparr>)"

text \<open>
  The error text of \<open>.single()\<close> when the query does not yield exactly one row, and the
  text for a value that the column \<open>option_index INTEGER NOT NULL\<close> does not accept.
  The texts stand for the store's own messages; nothing below depends on their wording.
\<close>

definition msg_not_single :: jsstring where
  "msg_not_single = js ''JSON object requested, multiple (or no) rows returned''"

definition msg_invalid_integer :: jsstring where
  "msg_invalid_integer = js ''invalid input for column option_index''"

text \<open>
  \<open>.single()\<close>: the row when the filtered query yields exactly one row; otherwise the
  data is null and an error is reported.
\<close>

definition single :: "'a list \<Rightarrow> 'a option \<times> jsstring option" where
  "single rows = (case rows of [r] \<Rightarrow> (Some r, None) | _ \<Rightarrow> (None, Some msg_not_single))"

definition select_single ::
  "store_call \<Rightarrow> (world \<Rightarrow> 'a list) \<Rightarrow> world \<Rightarrow> ('a option \<times> jsstring option) \<times> world" where
  "select_single c rows w =
     (case round_trip c w of
        (Some e, w1) \<Rightarrow> ((None, Some e), w1)
      | (None, w1) \<Rightarrow> (single (rows w1), w1))"

text \<open>\<open>from("polls").insert([{ user_id, question, options }])\<close>\<close>

definition insert_poll ::
  "jsstring \<Rightarrow> jsstring \<Rightarrow> jsstring list \<Rightarrow> world \<Rightarrow> jsstring option \<times> world" where
  "insert_poll uid question options w =
     (case round_trip InsertPolls w of
        (Some e, w1) \<Rightarrow> (Some e, w1)
      | (None, w1) \<Rightarrow>
          (None, w1\<lparr>polls := polls w1 @
                     [\<lparr>poll_id = new_id w1 (clock w1), poll_user_id = uid,
                       poll_question = question, poll_options = options,
                       poll_created_at = clock w1, poll_updated_at = clock w1\<rparr>],
                   clock := Suc (clock w1)\<rparr>))"

text \<open>
  \<open>from("polls").select("*").eq("user_id", uid).order("created_at", { ascending: false })\<close>
\<close>

definition select_polls_by_user ::
  "jsstring \<Rightarrow> world \<Rightarrow> (poll_row list option \<times> jsstring option) \<times> world" where
  "select_polls_by_user uid w =
     (case round_trip SelectPolls w of
        (Some e, w1) \<Rightarrow> ((None, Some e), w1)
      | (None, w1) \<Rightarrow>
          ((Some (rev (sort_key poll_created_at
                     (filter (\<lambda>r. poll_user_id r = uid) (polls w1)))), None), w1))"

text \<open>\<open>from("polls").select(...).eq("id", ident).single()\<close>\<close>

definition polls_with_id :: "jsstring \<Rightarrow> world \<Rightarrow> poll_row list" where
  "polls_with_id ident w = filter (\<lambda>r. poll_id r = ident) (polls w)"

definition select_poll_by_id ::
  "jsstring \<Rightarrow> world \<Rightarrow> (poll_row option \<times> jsstring option) \<times> world" where
  "select_poll_by_id ident w = select_single SelectPolls (polls_with_id ident) w"

text \<open>\<open>from("votes").select("id").eq("poll_id", pid).eq("user_id", uid).single()\<close>\<close>

definition votes_of :: "jsstring \<Rightarrow> jsstring \<Rightarrow> world \<Rightarrow> vote_row list" where
  "votes_of pid uid w =
     filter (\<lambda>v. vote_poll_id v = pid \<and> vote_user_id v = Some uid) (votes w)"

definition select_vote_by_poll_and_user ::
  "jsstring \<Rightarrow> jsstring \<Rightarrow> world \<Rightarrow> (vote_row option \<times> jsstring option) \<times> world" where
  "select_vote_by_poll_and_user pid uid w = select_single SelectVotes (votes_of pid uid) w"

text \<open>
  \<open>from("votes").insert([{ poll_id, user_id, option_index }])\<close>. The column is an integer
  column: a fractional number is refused, and NaN and the infinities, which JSON writes
  as \<open>null\<close>, are refused by \<open>NOT NULL\<close>.
\<close>

fun integer_column_value :: "js_number \<Rightarrow> int option" where
  "integer_column_value (Finite r) =
     (if is_integer r \<and> - 2147483648 \<le> r \<and> r \<le> 2147483647 then Some (floor r) else None)"
| "integer_column_value NaN = None"
| "integer_column_value PosInfinity = None"
| "integer_column_value NegInfinity = None"

definition insert_vote ::
  "jsstring \<Rightarrow> jsstring option \<Rightarrow> js_number \<Rightarrow> world \<Rightarrow> jsstring option \<times> world" where
  "insert_vote pid uid option_index w =
     (case round_trip InsertVotes w of
        (Some e, w1) \<Rightarrow> (Some e, w1)
      | (None, w1) \<Rightarrow>
          (case integer_column_value option_index of
             None \<Rightarrow> (Some msg_invalid_integer, w1)
           | Some i \<Rightarrow>
               (None, w1\<lparr>votes := votes w1 @
                          [\<lparr>vote_id = new_id w1 (clock w1), vote_poll_id = pid,
                            vote_user_id = uid, vote_option_index = i,
                            vote_created_at = clock w1\<rparr>],
                        clock := Suc (clock w1)\<rparr>)))"

text \<open>
  \<open>from("polls").delete().eq("id", ident).eq("user_id", uid)\<close>: the rows matching both
  filters are removed, and with them the votes that reference a removed poll
  (\<open>ON DELETE CASCADE\<close>).
\<close>

definition delete_polls :: "jsstring \<Rightarrow> jsstring \<Rightarrow> world \<Rightarrow> jsstring option \<times> world" where
  "delete_polls ident uid w =
     (case round_trip DeletePolls w of
        (Some e, w1) \<Rightarrow> (Some e, w1)
      | (None, w1) \<Rightarrow>
          (None, w1\<lparr>polls := filter (\<lambda>r. \<not> (poll_id r = ident \<and> poll_user_id r = uid)) (polls w1),
                   votes := filter
                     (\<lambda>v. vote_poll_id v \<notin>
                        set (map poll_id
                          (filter (\<lambda>r. poll_id r = ident \<and> poll_user_id r = uid) (polls w1))))
                     (votes w1)\<rparr>))"

text \<open>\<open>from("polls").update({ question, options }).eq("id", ident).eq("user_id", uid)\<close>\<close>

definition update_polls ::
  "jsstring \<Rightarrow> jsstring \<Rightarrow> jsstring \<Rightarrow> jsstring list \<Rightarrow> world \<Rightarrow> jsstring option \<times> world" where
  "update_polls ident uid question options w =
     (case round_trip UpdatePolls w of
        (Some e, w1) \<Rightarrow> (Some e, w1)
      | (None, w1) \<Rightarrow>
          (None, w1\<lparr>polls := map
                     (\<lambda>r. if poll_id r = ident \<and> poll_user_id r = uid
                          then r\<lparr>poll_question := question, poll_options := options\<rparr>
                          else r)
                     (polls w1)\<rparr>))"

text \<open>\<open>revalidatePath(path)\<close>\<close>

definition revalidatePath :: "jsstring \<Rightarrow> world \<Rightarrow> world" where
  "revalidatePath path w = w\<lparr>revalidated := revalidated w @ [path]\<rparr>"

section \<open>The request handlers\<close>

definition msg_login_create :: jsstring where
  "msg_login_create = js ''You must be logged in to create a poll.''"

definition msg_not_authenticated :: jsstring where
  "msg_not_authenticated = js ''Not authenticated''"

definition msg_invalid_id :: jsstring where
  "msg_invalid_id = js ''Invalid poll ID format''"

definition msg_invalid_index :: jsstring where
  "msg_invalid_index = js ''Invalid option index''"

definition msg_poll_not_found :: jsstring where
  "msg_poll_not_found = js ''Poll not found''"

definition msg_invalid_index_for_poll :: jsstring where
  "msg_invalid_index_for_poll = js ''Invalid option index for this poll''"

definition msg_already_voted :: jsstring where
  "msg_already_voted = js ''You have already voted on this poll''"

definition msg_authentication_error :: jsstring where
  "msg_authentication_error = js ''Authentication error''"

definition msg_login_delete :: jsstring where
  "msg_login_delete = js ''You must be logged in to delete a poll.''"

definition msg_login_update :: jsstring where
  "msg_login_update = js ''You must be logged in to update a poll.''"

text \<open>
  The first two statements of \<open>createPoll\<close> and of \<open>updatePoll\<close>, which are the same:
  \<^verbatim>\<open>const question = sanitizeInput(formData.get("question") as string);\<close>
  \<^verbatim>\<open>const options = formData.getAll("options").filter(Boolean).map(opt => sanitizeInput(opt as string));\<close>
\<close>

definition read_poll_form :: "form_data \<Rightarrow> (jsstring \<times> jsstring list) outcome" where
  "read_poll_form fd =
     (case sanitizeInput_cast (formData_get fd (js ''question'')) of
        Threw e \<Rightarrow> Threw e
      | Returned question \<Rightarrow>
          (case map_sanitizeInput (filter truthy (formData_getAll fd (js ''options''))) of
             Threw e \<Rightarrow> Threw e
           | Returned options \<Rightarrow> Returned (question, options)))"

text \<open>
  A handler returns \<open>{ error }\<close>, the message or null (\<open>None\<close>), together with the world
  it leaves behind; \<open>createPoll\<close> and \<open>updatePoll\<close> may throw instead of returning.
\<close>

definition createPoll :: "form_data \<Rightarrow> world \<Rightarrow> jsstring option outcome \<times> world" where
  "createPoll fd w =
     (case read_poll_form fd of
        Threw e \<Rightarrow> (Threw e, w)
      | Returned (question, options) \<Rightarrow>
          (case validatePollInput question options of
             Invalid m \<Rightarrow> (Returned (Some m), w)
           | Valid \<Rightarrow>
               (case getUser w of
                  (user, Some m) \<Rightarrow> (Returned (Some m), w)
                | (None, None) \<Rightarrow> (Returned (Some msg_login_create), w)
                | (Some uid, None) \<Rightarrow>
                    (case insert_poll uid question options w of
                       (Some e, w1) \<Rightarrow> (Returned (Some e), w1)
                     | (None, w1) \<Rightarrow> (Returned None, revalidatePath (js ''/polls'') w1)))))"

text \<open>\<open>getUserPolls\<close> returns \<open>{ polls, error }\<close>; it does not read the lookup's error.\<close>

definition getUserPolls :: "world \<Rightarrow> (poll_row list \<times> jsstring option) \<times> world" where
  "getUserPolls w =
     (case getUser w of
        (None, userError) \<Rightarrow> (([], Some msg_not_authenticated), w)
      | (Some uid, userError) \<Rightarrow>
          (case select_polls_by_user uid w of
             ((d, Some e), w1) \<Rightarrow> (([], Some e), w1)
           | ((None, None), w1) \<Rightarrow> (([], None), w1)
           | ((Some rows, None), w1) \<Rightarrow> ((rows, None), w1)))"

text \<open>\<open>getPollById\<close> returns \<open>{ poll, error }\<close>.\<close>

definition getPollById :: "jsstring \<Rightarrow> world \<Rightarrow> (poll_row option \<times> jsstring option) \<times> world" where
  "getPollById ident w =
     (if \<not> uuidRegex_test ident then ((None, Some msg_invalid_id), w)
      else
        (case select_poll_by_id ident w of
           ((d, Some e), w1) \<Rightarrow> ((None, Some e), w1)
         | ((d, None), w1) \<Rightarrow> ((d, None), w1)))"

text \<open>
  The duplicate check of \<open>submitVote\<close>: made only for a known user; it reads the data of
  the \<open>.single()\<close> query and not its error. The result says whether a vote was found.
\<close>

definition existing_vote_check ::
  "jsstring \<Rightarrow> jsstring option \<Rightarrow> world \<Rightarrow> bool \<times> world" where
  "existing_vote_check pollId user w =
     (case user of
        None \<Rightarrow> (False, w)
      | Some uid \<Rightarrow>
          (case select_vote_by_poll_and_user pollId uid w of
             ((existingVote, e), w1) \<Rightarrow> (existingVote \<noteq> None, w1)))"

definition submitVote :: "jsstring \<Rightarrow> js_value \<Rightarrow> world \<Rightarrow> jsstring option \<times> world" where
  "submitVote pollId optionIndex w =
     (if \<not> uuidRegex_test pollId then (Some msg_invalid_id, w)
      else
        (case optionIndex of
           JSNotNumber \<Rightarrow> (Some msg_invalid_index, w)
         | JSNumber n \<Rightarrow>
             if js_less n 0 \<or> js_greater n 9 then (Some msg_invalid_index, w)
             else
               (case getUser w of
                  (user, userError) \<Rightarrow>
                    (case select_poll_by_id pollId w of
                       ((None, pollError), w1) \<Rightarrow> (Some msg_poll_not_found, w1)
                     | ((Some poll, Some e), w1) \<Rightarrow> (Some msg_poll_not_found, w1)
                     | ((Some poll, None), w1) \<Rightarrow>
                         if js_greater_eq n (of_nat (length (poll_options poll)))
                         then (Some msg_invalid_index_for_poll, w1)
                         else
                           (case existing_vote_check pollId user w1 of
                              (True, w2) \<Rightarrow> (Some msg_already_voted, w2)
                            | (False, w2) \<Rightarrow> insert_vote pollId user n w2)))))"

definition deletePoll :: "jsstring \<Rightarrow> world \<Rightarrow> jsstring option \<times> world" where
  "deletePoll ident w =
     (case getUser w of
        (user, Some m) \<Rightarrow> (Some msg_authentication_error, w)
      | (None, None) \<Rightarrow> (Some msg_login_delete, w)
      | (Some uid, None) \<Rightarrow>
          (case delete_polls ident uid w of
             (Some e, w1) \<Rightarrow> (Some e, w1)
           | (None, w1) \<Rightarrow> (None, revalidatePath (js ''/polls'') w1)))"

definition updatePoll ::
  "jsstring \<Rightarrow> form_data \<Rightarrow> world \<Rightarrow> jsstring option outcome \<times> world" where
  "updatePoll pollId fd w =
     (case read_poll_form fd of
        Threw e \<Rightarrow> (Threw e, w)
      | Returned (question, options) \<Rightarrow>
          (case validatePollInput question options of
             Invalid m \<Rightarrow> (Returned (Some m), w)
           | Valid \<Rightarrow>
               (case getUser w of
                  (user, Some m) \<Rightarrow> (Returned (Some m), w)
                | (None, None) \<Rightarrow> (Returned (Some msg_login_update), w)
                | (Some uid, None) \<Rightarrow>
                    (case update_polls pollId uid question options w of
                       (Some e, w1) \<Rightarrow> (Returned (Some e), w1)
                     | (None, w1) \<Rightarrow> (Returned None, w1)))))"

section \<open>Example data\<close>

text \<open>Concrete users, a poll with three options, a store holding it, and a form.\<close>

definition alice :: jsstring where
  "alice = js ''11111111-1111-4111-8111-111111111111''"

definition bob :: jsstring where
  "bob = js ''22222222-2222-4222-8222-222222222222''"

definition poll1_id :: jsstring where
  "poll1_id = js ''123e4567-e89b-42d3-a456-426614174000''"

definition poll1 :: poll_row where
  "poll1 = \<lparr>poll_id = poll1_id, poll_user_id = alice,
            poll_question = js ''Favorite color?'',
            poll_options = [js ''Red'', js ''Blue'', js ''Green''],
            poll_created_at = 0, poll_updated_at = 0\<rparr>"

definition world1 :: world where
  "world1 = \<lparr>auth = SignedOut, polls = [poll1], votes = [], calls = [],
             fault = (\<lambda>n. None),
             new_id = (\<lambda>n. js ''00000000-0000-4000-8000-000000000000''),
             clock = 1, revalidated = []\<rparr>"

definition vote_by_alice :: "nat \<Rightarrow> vote_row" where
  "vote_by_alice t = \<lparr>vote_id = js ''33333333-3333-4333-8333-333333333333'',
                       vote_poll_id = poll1_id, vote_user_id = Some alice,
                       vote_option_index = 0, vote_created_at = t\<rparr>"

text \<open>Alice signed in, with two votes of hers on the poll already stored.\<close>

definition world_two_votes :: world where
  "world_two_votes =
     world1\<lparr>auth := SignedIn alice, votes := [vote_by_alice 1, vote_by_alice 2]\<rparr>"

text \<open>
  Alice signed in, with one vote of hers stored, and a store whose second round trip
  fails.
\<close>

definition world_failing_check :: world where
  "world_failing_check =
     world1\<lparr>auth := SignedIn alice, votes := [vote_by_alice 0],
            fault := (\<lambda>n. if n = 1 then Some (js ''connection reset'') else None)\<rparr>"

definition form1 :: form_data where
  "form1 = [(js ''question'', FormString (js ''Favorite color?'')),
            (js ''options'', FormString (js ''Red'')),
            (js ''options'', FormString (js ''Blue''))]"

text \<open>A form with no \<open>question\<close> entry.\<close>

definition form_without_question :: form_data where
  "form_without_question = [(js ''options'', FormString (js ''Red'')),
                            (js ''options'', FormString (js ''Blue''))]"

text \<open>A question of 501 code units: 498 spaces, then \<open>abc\<close>.\<close>

definition padded_question :: jsstring where
  "padded_question = replicate 498 0x20 @ js ''abc''"

definition form_padded :: form_data where
  "form_padded = [(js ''question'', FormString padded_question),
                  (js ''options'', FormString (js ''Red'')),
                  (js ''options'', FormString (js ''Blue''))]"

text \<open>A form whose question has two characters.\<close>

definition form_short :: form_data where
  "form_short = [(js ''question'', FormString (js ''ab'')),
                 (js ''options'', FormString (js ''Red'')),
                 (js ''options'', FormString (js ''Blue''))]"



section \<open>Basic facts about strings\<close>

lemma unat_of_char: "unat (of_char c :: code_unit) = of_char c"
proof -
  have word: "(of_char c :: code_unit) = word_of_nat (of_char c)"
    by (simp add: of_nat_of_char)
  have small: "(of_char c :: nat) < 65536"
    using nat_of_char_less_256 [of c] by linarith
  show ?thesis
    by (subst word) (simp add: unat_of_nat take_bit_nat_eq_self small)
qed

lemma of_char_code_unit_inj: "(of_char c :: code_unit) = of_char d \<Longrightarrow> c = d"
proof -
  assume "(of_char c :: code_unit) = of_char d"
  then have "unat (of_char c :: code_unit) = unat (of_char d :: code_unit)"
    by simp
  then have "(of_char c :: nat) = of_char d"
    by (simp only: unat_of_char)
  then show "c = d"
    by simp
qed

lemma js_eq_iff: "js s = js t \<longleftrightarrow> s = t"
proof
  assume "js s = js t"
  then show "s = t"
    unfolding js_def
  proof (induction s arbitrary: t)
    case Nil
    then show ?case by simp
  next
    case (Cons c s)
    then obtain d t' where t: "t = d # t'"
      by (cases t) auto
    with Cons show ?case
      by (auto dest: of_char_code_unit_inj)
  qed
qed simp

lemma length_js: "length (js s) = length s"
  by (simp add: js_def)

lemma js_Nil_iff: "js s = [] \<longleftrightarrow> s = []"
  by (simp add: js_def)

section \<open>Facts about the sanitizer\<close>

lemma length_trim_le: "length (trim s) \<le> length s"
proof -
  have "length (trim s) \<le> length (rev (dropWhile is_js_whitespace s))"
    unfolding trim_def length_rev [of "dropWhile is_js_whitespace (rev (dropWhile is_js_whitespace s))"]
    by (rule length_dropWhile_le)
  also have "\<dots> \<le> length s"
    by (simp add: length_dropWhile_le)
  finally show ?thesis .
qed

lemma length_sanitizeInput_le: "length (sanitizeInput s) \<le> length s"
proof -
  have "length (sanitizeInput s) \<le> length (trim s)"
    by (simp add: sanitizeInput_def remove_angle_brackets_def)
  with length_trim_le [of s] show ?thesis by linarith
qed

lemma sanitizeInput_no_angle_bracket: "c \<in> set (sanitizeInput s) \<Longrightarrow> \<not> is_angle_bracket c"
  by (simp add: sanitizeInput_def remove_angle_brackets_def)

lemma sanitizeInput_script:
  "sanitizeInput (js ''<script>hi</script>'') = js ''scripthi/script''"
  by (simp add: sanitizeInput_def trim_def remove_angle_brackets_def is_angle_bracket_def
      is_js_whitespace_def js_def)


lemma sanitize_simple:
  "sanitizeInput (js ''Red'') = js ''Red''" "sanitizeInput (js ''Blue'') = js ''Blue''"
  "sanitizeInput (js ''Favorite color?'') = js ''Favorite color?''"
  by (simp_all add: sanitizeInput_def trim_def remove_angle_brackets_def is_angle_bracket_def
      is_js_whitespace_def js_def)

lemma trim_leading_spaces:
  assumes "\<not> is_js_whitespace (last s)" "s \<noteq> []" "\<not> is_js_whitespace (hd s)"
  shows "trim (replicate n 0x20 @ s) = s"
proof -
  have sp: "is_js_whitespace 0x20"
    by (simp add: is_js_whitespace_def)
  have 1: "dropWhile is_js_whitespace (replicate n 0x20 @ s) = s"
    using assms sp by (cases s) (simp_all add: dropWhile_append)
  have 2: "dropWhile is_js_whitespace (rev s) = rev s"
    using assms by (cases s rule: rev_cases) simp_all
  show ?thesis
    by (simp add: trim_def 1 2)
qed

lemma sanitizeInput_padded: "sanitizeInput padded_question = js ''abc''"
proof -
  have "trim padded_question = js ''abc''"
    unfolding padded_question_def
    by (rule trim_leading_spaces) (simp_all add: js_def is_js_whitespace_def)
  then show ?thesis
    by (simp add: sanitizeInput_def remove_angle_brackets_def is_angle_bracket_def js_def)
qed

lemma length_padded: "length padded_question = 501"
  by (simp add: padded_question_def length_js)

section \<open>Facts about the validator\<close>

lemma validate_options_loop_first_bad:
  "validate_options_loop options =
     (case first_bad_option options of
        None \<Rightarrow> Valid
      | Some option \<Rightarrow>
          if option = [] then Invalid msg_option_empty else Invalid msg_option_long)"
  unfolding first_bad_option_def
  by (induction options) auto

lemma validate_options_loop_valid_iff:
  "validate_options_loop options = Valid \<longleftrightarrow>
     \<not> list_ex (\<lambda>option. option = []) options \<and> \<not> list_ex (\<lambda>option. length option > 200) options"
  by (induction options) simp_all

lemma validatePollInput_valid_iff_spec:
  "validatePollInput question options = Valid \<longleftrightarrow> spec_validatePollInput question options = Valid"
  by (simp add: validatePollInput_def spec_validatePollInput_def validate_options_loop_valid_iff)

lemma msg_option_empty_distinct:
  "msg_question_short \<noteq> msg_option_empty" "msg_question_long \<noteq> msg_option_empty"
  "msg_too_few_options \<noteq> msg_option_empty" "msg_too_many_options \<noteq> msg_option_empty"
  "msg_option_long \<noteq> msg_option_empty"
  by (simp_all add: msg_question_short_def msg_question_long_def msg_too_few_options_def
      msg_too_many_options_def msg_option_long_def msg_option_empty_def js_eq_iff)




lemma validatePollInput_question_bounds:
  assumes "length question < 3 \<or> 500 < length question"
  shows "validatePollInput question options =
           Invalid (if length question < 3 then msg_question_short else msg_question_long)"
  using assms by (auto simp: validatePollInput_def)

lemma valid_abc: "validatePollInput (js ''abc'') [js ''Red'', js ''Blue''] = Valid"
  by (simp add: validatePollInput_def length_js js_Nil_iff)

lemma valid_form1: "validatePollInput (js ''Favorite color?'') [js ''Red'', js ''Blue''] = Valid"
  by (simp add: validatePollInput_def length_js js_Nil_iff)

section \<open>Facts about reading the form\<close>

lemma filter_truthy_strings:
  "filter truthy (map FormString raw) = map FormString (filter (\<lambda>s. s \<noteq> []) raw)"
  by (induction raw) auto

lemma map_sanitizeInput_strings:
  "map_sanitizeInput (map FormString xs) = Returned (map sanitizeInput xs)"
  by (induction xs) auto

lemma read_poll_form_strings:
  assumes "formData_get fd (js ''question'') = Some (FormString q)"
      and "formData_getAll fd (js ''options'') = map FormString raw"
  shows "read_poll_form fd =
           Returned (sanitizeInput q, map sanitizeInput (filter (\<lambda>s. s \<noteq> []) raw))"
  using assms
  by (simp add: read_poll_form_def filter_truthy_strings map_sanitizeInput_strings)

lemma read_poll_form_null_question:
  "formData_get fd (js ''question'') = None \<Longrightarrow> read_poll_form fd = Threw TypeError"
  by (simp add: read_poll_form_def)

lemma form_get_1: "formData_get form_without_question (js ''question'') = None"
  by (simp add: formData_get_def form_without_question_def js_eq_iff)

lemma form_padded_fields:
  "formData_get form_padded (js ''question'') = Some (FormString padded_question)"
  "formData_getAll form_padded (js ''options'') = map FormString [js ''Red'', js ''Blue'']"
  by (simp_all add: form_padded_def formData_get_def formData_getAll_def js_eq_iff)

lemma form1_fields:
  "formData_get form1 (js ''question'') = Some (FormString (js ''Favorite color?''))"
  "formData_getAll form1 (js ''options'') = map FormString [js ''Red'', js ''Blue'']"
  by (simp_all add: form1_def formData_get_def formData_getAll_def js_eq_iff)

lemma read_form_padded:
  "read_poll_form form_padded = Returned (js ''abc'', [js ''Red'', js ''Blue''])"
  using read_poll_form_strings [OF form_padded_fields]
  by (simp add: sanitizeInput_padded sanitize_simple js_Nil_iff)

lemma read_form1:
  "read_poll_form form1 = Returned (js ''Favorite color?'', [js ''Red'', js ''Blue''])"
  using read_poll_form_strings [OF form1_fields]
  by (simp add: sanitize_simple js_Nil_iff)

lemma createPoll_invalid:
  "read_poll_form fd = Returned (question, options) \<Longrightarrow>
   validatePollInput question options = Invalid m \<Longrightarrow>
   createPoll fd w = (Returned (Some m), w)"
  by (simp add: createPoll_def)

lemma updatePoll_invalid:
  "read_poll_form fd = Returned (question, options) \<Longrightarrow>
   validatePollInput question options = Invalid m \<Longrightarrow>
   updatePoll p fd w = (Returned (Some m), w)"
  by (simp add: updatePoll_def)

section \<open>Facts about the store and the session\<close>

lemma is_integer_simps [simp]:
  "is_integer 0" "is_integer 1" "is_integer (numeral b)" "is_integer (of_nat k)"
  by (simp_all add: is_integer_def)

lemma not_integer_half: "\<not> is_integer (5 / 2)"
  by code_simp

lemma getUser_cases:
  "auth w = SignedIn u \<Longrightarrow> getUser w = (Some u, None)"
  "auth w = SignedOut \<Longrightarrow> getUser w = (None, None)"
  "auth w = AuthFailure m \<Longrightarrow> getUser w = (None, Some m)"
  by (simp_all add: getUser_def)

lemma getUser_auth_update:
  "getUser (w\<lparr>auth := a\<rparr>) = (case a of SignedIn uid \<Rightarrow> (Some uid, None)
      | SignedOut \<Rightarrow> (None, None)
      | AuthFailure m \<Rightarrow> (None, Some m))"
  by (simp add: getUser_def)

lemma select_single_ok:
  "fault w (length (calls w)) = None \<Longrightarrow>
   select_single c rows w = (single (rows (w\<lparr>calls := calls w @ [c]\<rparr>)), w\<lparr>calls := calls w @ [c]\<rparr>)"
  by (simp add: select_single_def round_trip_def)

lemma select_single_fault:
  "fault w (length (calls w)) = Some e \<Longrightarrow>
   select_single c rows w = ((None, Some e), w\<lparr>calls := calls w @ [c]\<rparr>)"
  by (simp add: select_single_def round_trip_def)

lemma polls_with_id_calls [simp]: "polls_with_id p (w\<lparr>calls := cs\<rparr>) = polls_with_id p w"
  by (simp add: polls_with_id_def)

lemma votes_of_calls [simp]: "votes_of p u (w\<lparr>calls := cs\<rparr>) = votes_of p u w"
  by (simp add: votes_of_def)

lemma insert_poll_ok:
  assumes "fault w (length (calls w)) = None"
  shows "insert_poll uid question options w =
     (None, w\<lparr>calls := calls w @ [InsertPolls],
              polls := polls w @
                     [\<lparr>poll_id = new_id w (clock w), poll_user_id = uid,
                       poll_question = question, poll_options = options,
                       poll_created_at = clock w, poll_updated_at = clock w\<rparr>],
                   clock := Suc (clock w)\<rparr>)"
  using assms by (simp add: insert_poll_def round_trip_def)

lemma insert_vote_ok:
  assumes "fault w (length (calls w)) = None"
      and "integer_column_value n = Some k"
  shows "insert_vote p user n w =
     (None, w\<lparr>calls := calls w @ [InsertVotes],
              votes := votes w @ [\<lparr>vote_id = new_id w (clock w), vote_poll_id = p,
                            vote_user_id = user, vote_option_index = k,
                            vote_created_at = clock w\<rparr>],
              clock := Suc (clock w)\<rparr>)"
  using assms by (simp add: insert_vote_def round_trip_def)

lemma insert_vote_refused:
  assumes "fault w (length (calls w)) = None"
      and "integer_column_value n = None"
  shows "insert_vote p user n w = (Some msg_invalid_integer, w\<lparr>calls := calls w @ [InsertVotes]\<rparr>)"
  using assms by (simp add: insert_vote_def round_trip_def)

lemma delete_polls_non_owner:
  assumes "\<forall>r\<in>set (polls w). poll_id r = p \<longrightarrow> poll_user_id r \<noteq> u"
  shows "polls (snd (delete_polls p u w)) = polls w" "votes (snd (delete_polls p u w)) = votes w"
proof -
  have none: "filter (\<lambda>r. poll_id r = p \<and> poll_user_id r = u) (polls w) = []"
    using assms by (auto simp: filter_empty_conv)
  have all: "filter (\<lambda>r. \<not> (poll_id r = p \<and> poll_user_id r = u)) (polls w) = polls w"
    using assms by (auto simp: filter_id_conv)
  show "polls (snd (delete_polls p u w)) = polls w"
    using all by (simp add: delete_polls_def round_trip_def split: option.splits)
  show "votes (snd (delete_polls p u w)) = votes w"
    using none by (simp add: delete_polls_def round_trip_def split: option.splits)
qed

lemma update_polls_non_owner:
  assumes "\<forall>r\<in>set (polls w). poll_id r = p \<longrightarrow> poll_user_id r \<noteq> u"
  shows "polls (snd (update_polls p u q opts w)) = polls w" "votes (snd (update_polls p u q opts w)) = votes w"
proof -
  have same: "map (\<lambda>r. if poll_id r = p \<and> poll_user_id r = u
                          then r\<lparr>poll_question := q, poll_options := opts\<rparr>
                          else r) (polls w) = polls w"
    by (intro map_idI) (use assms in auto)
  show "polls (snd (update_polls p u q opts w)) = polls w"
    using same by (simp add: update_polls_def round_trip_def split: option.splits)
  show "votes (snd (update_polls p u q opts w)) = votes w"
    by (simp add: update_polls_def round_trip_def split: option.splits)
qed

lemma delete_polls_fst: "fst (delete_polls p u w) = fault w (length (calls w))"
  by (simp add: delete_polls_def round_trip_def split: option.splits)

lemma update_polls_fst: "fst (update_polls p u q opts w) = fault w (length (calls w))"
  by (simp add: update_polls_def round_trip_def split: option.splits)

lemma existing_vote_check_anonymous: "existing_vote_check p None w = (False, w)"
  by (simp add: existing_vote_check_def)

lemma existing_vote_check_signed_in:
  assumes "fault w (length (calls w)) = None"
  shows "existing_vote_check p (Some u) w =
           (length (votes_of p u w) = 1, w\<lparr>calls := calls w @ [SelectVotes]\<rparr>)"
  using assms
  by (auto simp: existing_vote_check_def select_vote_by_poll_and_user_def select_single_ok
      single_def split: list.splits)

lemma existing_vote_check_fault:
  assumes "fault w (length (calls w)) = Some e"
  shows "existing_vote_check p (Some u) w = (False, w\<lparr>calls := calls w @ [SelectVotes]\<rparr>)"
  using assms
  by (simp add: existing_vote_check_def select_vote_by_poll_and_user_def select_single_fault)

section \<open>Facts about the example data\<close>

lemma uuid_poll1: "uuidRegex_test poll1_id"
  unfolding poll1_id_def by code_simp

lemma not_uuid_abc: "\<not> uuidRegex_test (js ''abc'')"
  by code_simp

lemma alice_bob: "alice \<noteq> bob" "bob \<noteq> alice"
  by (simp_all add: alice_def bob_def js_eq_iff)

lemma world1_facts:
  "auth world1 = SignedOut" "calls world1 = []" "fault world1 n = None" "votes world1 = []"
  "polls world1 = [poll1]" "clock world1 = 1"
  "new_id world1 n = js ''00000000-0000-4000-8000-000000000000''"
  by (simp_all add: world1_def)

lemma poll1_facts:
  "poll_id poll1 = poll1_id" "poll_user_id poll1 = alice" "length (poll_options poll1) = 3"
  by (simp_all add: poll1_def)

lemma polls_with_id_world1: "polls_with_id poll1_id world1 = [poll1]"
  by (simp add: polls_with_id_def world1_def poll1_def)

section \<open>The paths through the vote handler\<close>

lemma submitVote_out_of_range:
  assumes "uuidRegex_test p"
      and "\<not> js_less n 0" "\<not> js_greater n 9"
      and "fault w (length (calls w)) = None"
      and "polls_with_id p w = [poll]"
      and "js_greater_eq n (of_nat (length (poll_options poll)))"
  shows "submitVote p (JSNumber n) w = (Some msg_invalid_index_for_poll, w\<lparr>calls := calls w @ [SelectPolls]\<rparr>)"
  using assms
  by (simp add: submitVote_def select_poll_by_id_def select_single_ok single_def split: prod.splits)

lemma submitVote_anonymous_ok:
  assumes "uuidRegex_test p"
      and "\<not> js_less n 0" "\<not> js_greater n 9"
      and "fst (getUser w) = None"
      and "fault w (length (calls w)) = None"
      and "fault w (Suc (length (calls w))) = None"
      and "polls_with_id p w = [poll]"
      and "\<not> js_greater_eq n (of_nat (length (poll_options poll)))"
      and "integer_column_value n = Some k"
  shows "submitVote p (JSNumber n) w =
     (None, w\<lparr>calls := calls w @ [SelectPolls, InsertVotes],
              votes := votes w @ [\<lparr>vote_id = new_id w (clock w), vote_poll_id = p,
                            vote_user_id = None, vote_option_index = k,
                            vote_created_at = clock w\<rparr>],
              clock := Suc (clock w)\<rparr>)"
proof -
  obtain e where gu: "getUser w = (None, e)"
    using assms(4) by (cases "getUser w") auto
  show ?thesis
    using assms
    by (simp add: submitVote_def gu select_poll_by_id_def select_single_ok single_def
        existing_vote_check_anonymous insert_vote_ok)
qed

lemma submitVote_anonymous_refused:
  assumes "uuidRegex_test p"
      and "\<not> js_less n 0" "\<not> js_greater n 9"
      and "fst (getUser w) = None"
      and "fault w (length (calls w)) = None"
      and "fault w (Suc (length (calls w))) = None"
      and "polls_with_id p w = [poll]"
      and "\<not> js_greater_eq n (of_nat (length (poll_options poll)))"
      and "integer_column_value n = None"
  shows "submitVote p (JSNumber n) w =
     (Some msg_invalid_integer, w\<lparr>calls := calls w @ [SelectPolls, InsertVotes]\<rparr>)"
proof -
  obtain e where gu: "getUser w = (None, e)"
    using assms(4) by (cases "getUser w") auto
  show ?thesis
    using assms
    by (simp add: submitVote_def gu select_poll_by_id_def select_single_ok single_def
        existing_vote_check_anonymous insert_vote_refused)
qed

lemma submitVote_signed_in:
  assumes "uuidRegex_test p"
      and "\<not> js_less n 0" "\<not> js_greater n 9"
      and "auth w = SignedIn u"
      and "fault w (length (calls w)) = None"
      and "fault w (Suc (length (calls w))) = None"
      and "polls_with_id p w = [poll]"
      and "\<not> js_greater_eq n (of_nat (length (poll_options poll)))"
  shows "submitVote p (JSNumber n) w =
     (if length (votes_of p u w) = 1
      then (Some msg_already_voted, w\<lparr>calls := calls w @ [SelectPolls, SelectVotes]\<rparr>)
      else insert_vote p (Some u) n (w\<lparr>calls := calls w @ [SelectPolls, SelectVotes]\<rparr>))"
  using assms
  by (simp add: submitVote_def getUser_cases select_poll_by_id_def select_single_ok single_def
        existing_vote_check_signed_in)

lemma submitVote_duplicate:
  assumes "uuidRegex_test p"
      and "\<not> js_less n 0" "\<not> js_greater n 9"
      and "auth w = SignedIn u"
      and "fault w (length (calls w)) = None"
      and "fault w (Suc (length (calls w))) = None"
      and "polls_with_id p w = [poll]"
      and "\<not> js_greater_eq n (of_nat (length (poll_options poll)))"
      and "votes_of p u w = [v]"
  shows "submitVote p (JSNumber n) w =
           (Some msg_already_voted, w\<lparr>calls := calls w @ [SelectPolls, SelectVotes]\<rparr>)"
  using assms by (simp add: submitVote_signed_in)

lemma submitVote_signed_in_ok:
  assumes "uuidRegex_test p"
      and "\<not> js_less n 0" "\<not> js_greater n 9"
      and "auth w = SignedIn u"
      and "fault w (length (calls w)) = None"
      and "fault w (Suc (length (calls w))) = None"
      and "fault w (Suc (Suc (length (calls w)))) = None"
      and "polls_with_id p w = [poll]"
      and "\<not> js_greater_eq n (of_nat (length (poll_options poll)))"
      and "length (votes_of p u w) \<noteq> 1"
      and "integer_column_value n = Some k"
  shows "submitVote p (JSNumber n) w =
     (None, w\<lparr>calls := calls w @ [SelectPolls, SelectVotes, InsertVotes],
              votes := votes w @ [\<lparr>vote_id = new_id w (clock w), vote_poll_id = p,
                            vote_user_id = Some u, vote_option_index = k,
                            vote_created_at = clock w\<rparr>],
              clock := Suc (clock w)\<rparr>)"
  using assms by (simp add: submitVote_signed_in insert_vote_ok)

lemma submitVote_anonymous_votes:
  assumes "fst (getUser w) = None"
  shows "votes (snd (submitVote p i w)) = votes w
         \<or> (\<exists>v. votes (snd (submitVote p i w)) = votes w @ [v]
                \<and> vote_poll_id v = p \<and> vote_user_id v = None)"
proof -
  obtain e where gu: "getUser w = (None, e)"
    using assms by (cases "getUser w") auto
  show ?thesis
    by (auto simp: submitVote_def gu select_poll_by_id_def select_single_def round_trip_def
        existing_vote_check_anonymous insert_vote_def
        split: js_value.splits prod.splits option.splits)
qed

lemma submitVote_anonymous_error:
  assumes "fst (getUser w) = None"
  shows "fst (submitVote p i w) \<in>
           {None, Some msg_invalid_id, Some msg_invalid_index, Some msg_poll_not_found,
            Some msg_invalid_index_for_poll, Some msg_invalid_integer} \<union> range (fault w)"
proof -
  obtain e where gu: "getUser w = (None, e)"
    using assms by (cases "getUser w") auto
  show ?thesis
    apply (auto simp: submitVote_def gu select_poll_by_id_def select_single_def round_trip_def
        existing_vote_check_anonymous insert_vote_def image_iff
        split: js_value.splits prod.splits option.splits)
     apply metis+
    done
qed

lemma submitVote_failure_as_signed_out:
  assumes "auth w = AuthFailure m \<or> auth w = SignedOut"
  shows "submitVote p i w =
           (fst (submitVote p i (w\<lparr>auth := SignedOut\<rparr>)),
            (snd (submitVote p i (w\<lparr>auth := SignedOut\<rparr>)))\<lparr>auth := auth w\<rparr>)"
  using assms
  by (auto simp: submitVote_def getUser_def select_poll_by_id_def select_single_def round_trip_def
        existing_vote_check_anonymous insert_vote_def polls_with_id_def single_def
        split: js_value.splits prod.splits option.splits list.splits)

lemma submitVote_check_fault:
  assumes "uuidRegex_test p"
      and "\<not> js_less n 0" "\<not> js_greater n 9"
      and "auth w = SignedIn u"
      and "fault w (length (calls w)) = None"
      and "fault w (Suc (length (calls w))) = Some e"
      and "polls_with_id p w = [poll]"
      and "\<not> js_greater_eq n (of_nat (length (poll_options poll)))"
  shows "submitVote p (JSNumber n) w =
           insert_vote p (Some u) n (w\<lparr>calls := calls w @ [SelectPolls, SelectVotes]\<rparr>)"
  using assms
  by (simp add: submitVote_def getUser_cases select_poll_by_id_def select_single_ok single_def
        existing_vote_check_fault)

lemma createPoll_without_options:
  assumes "formData_get fd (js ''question'') = Some (FormString q)"
      and "formData_getAll fd (js ''options'') = []"
  shows "createPoll fd w =
           (Returned (Some (if length (sanitizeInput q) < 3 then msg_question_short
                            else if 500 < length (sanitizeInput q) then msg_question_long
                            else msg_too_few_options)), w)"
proof -
  have form: "read_poll_form fd = Returned (sanitizeInput q, [])"
    using read_poll_form_strings [OF assms(1), of "[]"] assms(2) by simp
  have "validatePollInput (sanitizeInput q) [] =
          Invalid (if length (sanitizeInput q) < 3 then msg_question_short
                   else if 500 < length (sanitizeInput q) then msg_question_long
                   else msg_too_few_options)"
    by (auto simp: validatePollInput_def)
  with form show ?thesis
    by (rule createPoll_invalid)
qed

section \<open>Ownership-scoped writes\<close>

lemma deletePoll_signed_in:
  "auth w = SignedIn u \<Longrightarrow>
   deletePoll p w = (case delete_polls p u w of
             (Some e, w1) \<Rightarrow> (Some e, w1)
           | (None, w1) \<Rightarrow> (None, revalidatePath (js ''/polls'') w1))"
  by (simp add: deletePoll_def getUser_cases)

lemma deletePoll_non_owner:
  assumes "auth w = SignedIn u"
      and "\<forall>r\<in>set (polls w). poll_id r = p \<longrightarrow> poll_user_id r \<noteq> u"
      and "fault w (length (calls w)) = None"
  shows "deletePoll p w =
           (None, w\<lparr>calls := calls w @ [DeletePolls],
                    revalidated := revalidated w @ [js ''/polls'']\<rparr>)"
proof -
  have none: "{x \<in> set (polls w). poll_id x = p \<and> poll_user_id x = u} = {}"
    using assms(2) by auto
  have all: "filter (\<lambda>r. poll_id r = p \<longrightarrow> poll_user_id r \<noteq> u) (polls w) = polls w"
    using assms(2) by (auto simp: filter_id_conv)
  have "delete_polls p u w = (None, w\<lparr>calls := calls w @ [DeletePolls]\<rparr>)"
    using assms(3) by (simp add: delete_polls_def round_trip_def none all)
  then show ?thesis
    by (simp add: deletePoll_signed_in [OF assms(1)] revalidatePath_def)
qed

lemma updatePoll_signed_in:
  assumes "auth w = SignedIn u"
      and "read_poll_form fd = Returned (question, options)"
      and "validatePollInput question options = Valid"
  shows "updatePoll p fd w =
           (case update_polls p u question options w of
              (Some e, w1) \<Rightarrow> (Returned (Some e), w1)
            | (None, w1) \<Rightarrow> (Returned None, w1))"
  using assms by (simp add: updatePoll_def getUser_cases)

lemma updatePoll_non_owner:
  assumes "auth w = SignedIn u"
      and "\<forall>r\<in>set (polls w). poll_id r = p \<longrightarrow> poll_user_id r \<noteq> u"
      and "fault w (length (calls w)) = None"
      and "read_poll_form fd = Returned (question, options)"
      and "validatePollInput question options = Valid"
  shows "updatePoll p fd w = (Returned None, w\<lparr>calls := calls w @ [UpdatePolls]\<rparr>)"
proof -
  have same: "map (\<lambda>r. if poll_id r = p \<and> poll_user_id r = u
                        then r\<lparr>poll_question := question, poll_options := options\<rparr>
                        else r) (polls w) = polls w"
    by (intro map_idI) (use assms(2) in auto)
  have "update_polls p u question options w = (None, w\<lparr>calls := calls w @ [UpdatePolls]\<rparr>)"
    using assms(3) by (simp add: update_polls_def round_trip_def same)
  then show ?thesis
    by (simp add: updatePoll_signed_in [OF assms(1,4,5)])
qed

lemma deletePoll_frame:
  assumes "auth w = SignedIn u"
      and "\<forall>r\<in>set (polls w). poll_id r = p \<longrightarrow> poll_user_id r \<noteq> u"
  shows "polls (snd (deletePoll p w)) = polls w \<and> votes (snd (deletePoll p w)) = votes w"
proof (cases "delete_polls p u w")
  case (Pair e w1)
  have "polls w1 = polls w" "votes w1 = votes w"
    using delete_polls_non_owner [OF assms(2)] Pair by simp_all
  then show ?thesis
    by (cases e) (simp_all add: deletePoll_signed_in [OF assms(1)] Pair revalidatePath_def)
qed

lemma updatePoll_frame:
  assumes "auth w = SignedIn u"
      and "\<forall>r\<in>set (polls w). poll_id r = p \<longrightarrow> poll_user_id r \<noteq> u"
  shows "polls (snd (updatePoll p fd w)) = polls w \<and> votes (snd (updatePoll p fd w)) = votes w"
proof (cases "read_poll_form fd")
  case (Threw e)
  then show ?thesis by (simp add: updatePoll_def)
next
  case (Returned form)
  obtain question options where form: "form = (question, options)"
    by (cases form)
  show ?thesis
  proof (cases "validatePollInput question options")
    case (Invalid m)
    then show ?thesis
      by (simp add: updatePoll_invalid [of fd question options m] Returned form)
  next
    case Valid
    obtain e w1 where upd: "update_polls p u question options w = (e, w1)"
      by (cases "update_polls p u question options w")
    have "polls w1 = polls w" "votes w1 = votes w"
      using update_polls_non_owner [OF assms(2), of question options] upd by simp_all
    then show ?thesis
      using Returned form Valid
      by (cases e) (simp_all add: updatePoll_signed_in [OF assms(1)] upd)
  qed
qed

section \<open>Facts about the example forms\<close>

lemma form_short_fields:
  "formData_get form_short (js ''question'') = Some (FormString (js ''ab''))"
  "formData_getAll form_short (js ''options'') = map FormString [js ''Red'', js ''Blue'']"
  by (simp_all add: form_short_def formData_get_def formData_getAll_def js_eq_iff)

lemma sanitizeInput_ab: "sanitizeInput (js ''ab'') = js ''ab''"
  by (simp add: sanitizeInput_def trim_def remove_angle_brackets_def is_angle_bracket_def
      is_js_whitespace_def js_def)




section \<open>Claims\<close>

text \<open>
  Claim C1. A signed-in caller \<open>u\<close> who owns no poll row with id \<open>p\<close> cannot change
  the tables through \<open>deletePoll p\<close> or \<open>updatePoll p\<close>: the poll rows and the vote rows
  after the call are those before it, whatever the form holds and whether or not the
  store reports a failure. When the store reports no failure for the round trip the write
  is issued, filtered by poll id and caller id, and the call returns a null error:
  \<open>deletePoll\<close> leaves the world as it was apart from the recorded round trip and the
  revalidation of \<open>/polls\<close>, and \<open>updatePoll\<close>, on a form that passes validation, apart
  from the recorded round trip.
\<close>

theorem non_owner_write_changes_no_row:
  assumes "auth w = SignedIn u"
      and "\<forall>r\<in>set (polls w). poll_id r = p \<longrightarrow> poll_user_id r \<noteq> u"
  shows "polls (snd (deletePoll p w)) = polls w \<and> votes (snd (deletePoll p w)) = votes w
       \<and> polls (snd (updatePoll p fd w)) = polls w \<and> votes (snd (updatePoll p fd w)) = votes w
       \<and> (fault w (length (calls w)) = None \<longrightarrow>
            deletePoll p w =
              (None, w\<lparr>calls := calls w @ [DeletePolls],
                       revalidated := revalidated w @ [js ''/polls'']\<rparr>))
       \<and> (fault w (length (calls w)) = None
            \<and> read_poll_form fd = Returned (question, options)
            \<and> validatePollInput question options = Valid \<longrightarrow>
            updatePoll p fd w = (Returned None, w\<lparr>calls := calls w @ [UpdatePolls]\<rparr>))"
proof -
  note d = deletePoll_frame [OF assms, THEN conjunct1] deletePoll_frame [OF assms, THEN conjunct2]
  note u = updatePoll_frame [OF assms, of fd, THEN conjunct1]
           updatePoll_frame [OF assms, of fd, THEN conjunct2]
  have ds: "fault w (length (calls w)) = None \<longrightarrow>
            deletePoll p w =
              (None, w\<lparr>calls := calls w @ [DeletePolls],
                       revalidated := revalidated w @ [js ''/polls'']\<rparr>)"
    using deletePoll_non_owner [OF assms] by (intro impI)
  have us: "fault w (length (calls w)) = None
            \<and> read_poll_form fd = Returned (question, options)
            \<and> validatePollInput question options = Valid \<longrightarrow>
            updatePoll p fd w = (Returned None, w\<lparr>calls := calls w @ [UpdatePolls]\<rparr>)"
  proof (intro impI)
    assume h: "fault w (length (calls w)) = None
            \<and> read_poll_form fd = Returned (question, options)
            \<and> validatePollInput question options = Valid"
    from h have 1: "fault w (length (calls w)) = None" by (rule conjunct1)
    from h have 2: "read_poll_form fd = Returned (question, options)" by simp
    from h have 3: "validatePollInput question options = Valid" by simp
    show "updatePoll p fd w = (Returned None, w\<lparr>calls := calls w @ [UpdatePolls]\<rparr>)"
      using assms 1 2 3 by (rule updatePoll_non_owner)
  qed
  show ?thesis
    by (rule conjI [OF d(1) conjI [OF d(2) conjI [OF u(1) conjI [OF u(2) conjI [OF ds us]]]]])
qed

text \<open>
  An instance: Bob is signed in, the only poll is Alice's, and the store reports no
  failure. Bob's delete and Bob's update of that poll both return a null error and the
  poll is still there.
\<close>

theorem non_owner_write_changes_no_row_witness:
  "auth (world1\<lparr>auth := SignedIn bob\<rparr>) = SignedIn bob
   \<and> poll_user_id poll1 = alice \<and> alice \<noteq> bob
   \<and> polls (snd (deletePoll poll1_id (world1\<lparr>auth := SignedIn bob\<rparr>))) = [poll1]
   \<and> polls (snd (updatePoll poll1_id form1 (world1\<lparr>auth := SignedIn bob\<rparr>))) = [poll1]
   \<and> fst (deletePoll poll1_id (world1\<lparr>auth := SignedIn bob\<rparr>)) = None
   \<and> fst (updatePoll poll1_id form1 (world1\<lparr>auth := SignedIn bob\<rparr>)) = Returned None"
proof -
  have a: "auth (world1\<lparr>auth := SignedIn bob\<rparr>) = SignedIn bob"
    by simp
  have o: "\<forall>r\<in>set (polls (world1\<lparr>auth := SignedIn bob\<rparr>)).
             poll_id r = poll1_id \<longrightarrow> poll_user_id r \<noteq> bob"
    by (simp add: world1_facts poll1_facts alice_bob)
  show ?thesis
    using non_owner_write_changes_no_row [OF a o, of form1 "js ''Favorite color?''"
        "[js ''Red'', js ''Blue'']"]
    by (simp add: world1_facts poll1_facts alice_bob read_form1 valid_form1)
qed

text \<open>
  Claim C2, as the code has it. Before anything is read from the store, \<open>submitVote\<close>
  rejects an option index that is not a number, or is a number below 0 or above 9 (after
  the identifier check, which comes first); the world is left exactly as it was. The
  check does not ask for an integer: a fractional number between 0 and 9, and NaN, go on
  to the store. For a poll with exactly three options, a store that reports no failure
  and a caller who has no vote on the poll yet, index 5 is rejected as out of range for
  this poll and nothing is inserted, and index 2 succeeds and appends one vote row.
\<close>

theorem submitVote_index_checks:
  "((i = JSNotNumber \<or> (\<exists>n. i = JSNumber n \<and> (js_less n 0 \<or> js_greater n 9))) \<longrightarrow>
      submitVote p i w =
        (Some (if uuidRegex_test p then msg_invalid_index else msg_invalid_id), w))
   \<and> (uuidRegex_test p \<and> polls_with_id p w = [poll] \<and> length (poll_options poll) = 3
       \<and> (\<forall>n. fault w n = None) \<and> (\<forall>u. auth w = SignedIn u \<longrightarrow> votes_of p u w = []) \<longrightarrow>
        submitVote p (JSNumber (Finite 5)) w =
          (Some msg_invalid_index_for_poll, w\<lparr>calls := calls w @ [SelectPolls]\<rparr>)
        \<and> fst (submitVote p (JSNumber (Finite 2)) w) = None
        \<and> votes (snd (submitVote p (JSNumber (Finite 2)) w)) =
            votes w @ [\<lparr>vote_id = new_id w (clock w), vote_poll_id = p,
                        vote_user_id = fst (getUser w), vote_option_index = 2,
                        vote_created_at = clock w\<rparr>])"
proof -
  have bad: "submitVote p i w =
        (Some (if uuidRegex_test p then msg_invalid_index else msg_invalid_id), w)"
    if "i = JSNotNumber \<or> (\<exists>n. i = JSNumber n \<and> (js_less n 0 \<or> js_greater n 9))"
    using that by (auto simp: submitVote_def)
  have three: "submitVote p (JSNumber (Finite 5)) w =
          (Some msg_invalid_index_for_poll, w\<lparr>calls := calls w @ [SelectPolls]\<rparr>)
        \<and> fst (submitVote p (JSNumber (Finite 2)) w) = None
        \<and> votes (snd (submitVote p (JSNumber (Finite 2)) w)) =
            votes w @ [\<lparr>vote_id = new_id w (clock w), vote_poll_id = p,
                        vote_user_id = fst (getUser w), vote_option_index = 2,
                        vote_created_at = clock w\<rparr>]"
    if u: "uuidRegex_test p" and poll: "polls_with_id p w = [poll]"
      and len: "length (poll_options poll) = 3"
      and nofault: "\<forall>n. fault w n = None"
      and fresh: "\<forall>u. auth w = SignedIn u \<longrightarrow> votes_of p u w = []"
  proof -
    have five: "submitVote p (JSNumber (Finite 5)) w =
          (Some msg_invalid_index_for_poll, w\<lparr>calls := calls w @ [SelectPolls]\<rparr>)"
      using u poll len nofault
      by (intro submitVote_out_of_range [where poll = poll]) simp_all
    have two: "fst (submitVote p (JSNumber (Finite 2)) w) = None
        \<and> votes (snd (submitVote p (JSNumber (Finite 2)) w)) =
            votes w @ [\<lparr>vote_id = new_id w (clock w), vote_poll_id = p,
                        vote_user_id = fst (getUser w), vote_option_index = 2,
                        vote_created_at = clock w\<rparr>]"
    proof (cases "auth w")
      case (SignedIn uid)
      have "submitVote p (JSNumber (Finite 2)) w =
         (None, w\<lparr>calls := calls w @ [SelectPolls, SelectVotes, InsertVotes],
              votes := votes w @ [\<lparr>vote_id = new_id w (clock w), vote_poll_id = p,
                            vote_user_id = Some uid, vote_option_index = 2,
                            vote_created_at = clock w\<rparr>],
              clock := Suc (clock w)\<rparr>)"
        using u poll len nofault fresh SignedIn
        by (intro submitVote_signed_in_ok [where poll = poll]) simp_all
      then show ?thesis
        by (simp add: getUser_cases(1) [OF SignedIn])
    next
      case SignedOut
      have "submitVote p (JSNumber (Finite 2)) w =
         (None, w\<lparr>calls := calls w @ [SelectPolls, InsertVotes],
              votes := votes w @ [\<lparr>vote_id = new_id w (clock w), vote_poll_id = p,
                            vote_user_id = None, vote_option_index = 2,
                            vote_created_at = clock w\<rparr>],
              clock := Suc (clock w)\<rparr>)"
        using u poll len nofault SignedOut
        by (intro submitVote_anonymous_ok [where poll = poll]) (simp_all add: getUser_cases)
      then show ?thesis
        by (simp add: getUser_cases(2) [OF SignedOut])
    next
      case (AuthFailure e)
      have "submitVote p (JSNumber (Finite 2)) w =
         (None, w\<lparr>calls := calls w @ [SelectPolls, InsertVotes],
              votes := votes w @ [\<lparr>vote_id = new_id w (clock w), vote_poll_id = p,
                            vote_user_id = None, vote_option_index = 2,
                            vote_created_at = clock w\<rparr>],
              clock := Suc (clock w)\<rparr>)"
        using u poll len nofault AuthFailure
        by (intro submitVote_anonymous_ok [where poll = poll]) (simp_all add: getUser_cases)
      then show ?thesis
        by (simp add: getUser_cases(3) [OF AuthFailure])
    qed
    from five two show ?thesis by (rule conjI)
  qed
  have p1: "(i = JSNotNumber \<or> (\<exists>n. i = JSNumber n \<and> (js_less n 0 \<or> js_greater n 9))) \<longrightarrow>
      submitVote p i w =
        (Some (if uuidRegex_test p then msg_invalid_index else msg_invalid_id), w)"
    using bad by (intro impI)
  have p2: "uuidRegex_test p \<and> polls_with_id p w = [poll] \<and> length (poll_options poll) = 3
       \<and> (\<forall>n. fault w n = None) \<and> (\<forall>u. auth w = SignedIn u \<longrightarrow> votes_of p u w = []) \<longrightarrow>
        submitVote p (JSNumber (Finite 5)) w =
          (Some msg_invalid_index_for_poll, w\<lparr>calls := calls w @ [SelectPolls]\<rparr>)
        \<and> fst (submitVote p (JSNumber (Finite 2)) w) = None
        \<and> votes (snd (submitVote p (JSNumber (Finite 2)) w)) =
            votes w @ [\<lparr>vote_id = new_id w (clock w), vote_poll_id = p,
                        vote_user_id = fst (getUser w), vote_option_index = 2,
                        vote_created_at = clock w\<rparr>]"
    using three by (intro impI) (elim conjE)
  from p1 p2 show ?thesis by (rule conjI)
qed

text \<open>An instance on the three-option poll of the example store.\<close>

theorem submitVote_index_checks_witness:
  "uuidRegex_test poll1_id \<and> polls_with_id poll1_id world1 = [poll1]
   \<and> length (poll_options poll1) = 3
   \<and> submitVote poll1_id (JSNumber (Finite 12)) world1 = (Some msg_invalid_index, world1)
   \<and> submitVote poll1_id (JSNumber (Finite 5)) world1 =
       (Some msg_invalid_index_for_poll, world1\<lparr>calls := [SelectPolls]\<rparr>)
   \<and> fst (submitVote poll1_id (JSNumber (Finite 2)) world1) = None
   \<and> votes (snd (submitVote poll1_id (JSNumber (Finite 2)) world1)) =
       [\<lparr>vote_id = js ''00000000-0000-4000-8000-000000000000'', vote_poll_id = poll1_id,
         vote_user_id = None, vote_option_index = 2, vote_created_at = 1\<rparr>]"
  using submitVote_index_checks [of "JSNumber (Finite 12)" poll1_id world1 poll1]
  by (simp add: uuid_poll1 polls_with_id_world1 poll1_facts world1_facts getUser_def)

text \<open>
  The claim as stated fails at the index 2.5: it is not rejected before the store is
  touched. The poll is fetched and the insert is attempted, and the error returned is the
  store's, for its integer column.
\<close>

theorem submitVote_fractional_index_reaches_store: "submitVote poll1_id (JSNumber (Finite (5 / 2))) world1 =
   (Some msg_invalid_integer, world1\<lparr>calls := [SelectPolls, InsertVotes]\<rparr>)"
  using submitVote_anonymous_refused [of poll1_id "Finite (5 / 2)" world1 poll1]
  by (simp add: uuid_poll1 world1_facts poll1_facts polls_with_id_world1 not_integer_half getUser_def)

text \<open>
  Claim C3, evaluated where it fails. Alice is signed in and has voted on the poll. The
  duplicate check asks the store for a single row and reads only the data of the answer,
  not its error. With two of her votes stored the answer is an error with null data, and
  with one vote stored and the check's round trip failing it is so too: in both cases
  \<open>submitVote\<close> inserts one more vote of hers and returns a null error.
\<close>

theorem submitVote_repeat_voter_inserts_again:
  "votes_of poll1_id alice world_two_votes = [vote_by_alice 1, vote_by_alice 2]
   \<and> submitVote poll1_id (JSNumber (Finite 0)) world_two_votes =
       (None, world_two_votes
                \<lparr>calls := [SelectPolls, SelectVotes, InsertVotes],
                 votes := [vote_by_alice 1, vote_by_alice 2,
                           \<lparr>vote_id = js ''00000000-0000-4000-8000-000000000000'',
                            vote_poll_id = poll1_id, vote_user_id = Some alice,
                            vote_option_index = 0, vote_created_at = 1\<rparr>],
                 clock := 2\<rparr>)
   \<and> votes_of poll1_id alice world_failing_check = [vote_by_alice 0]
   \<and> submitVote poll1_id (JSNumber (Finite 0)) world_failing_check =
       (None, world_failing_check
                \<lparr>calls := [SelectPolls, SelectVotes, InsertVotes],
                 votes := [vote_by_alice 0,
                           \<lparr>vote_id = js ''00000000-0000-4000-8000-000000000000'',
                            vote_poll_id = poll1_id, vote_user_id = Some alice,
                            vote_option_index = 0, vote_created_at = 1\<rparr>],
                 clock := 2\<rparr>)"
proof -
  have two: "votes_of poll1_id alice world_two_votes = [vote_by_alice 1, vote_by_alice 2]"
    by (simp add: world_two_votes_def votes_of_def vote_by_alice_def)
  have one: "votes_of poll1_id alice world_failing_check = [vote_by_alice 0]"
    by (simp add: world_failing_check_def votes_of_def vote_by_alice_def)
  have p2: "polls_with_id poll1_id world_two_votes = [poll1]"
    by (simp add: world_two_votes_def polls_with_id_def world1_facts poll1_facts)
  have p1: "polls_with_id poll1_id world_failing_check = [poll1]"
    by (simp add: world_failing_check_def polls_with_id_def world1_facts poll1_facts)
  have third: "submitVote poll1_id (JSNumber (Finite 0)) world_two_votes =
       (None, world_two_votes
                \<lparr>calls := [SelectPolls, SelectVotes, InsertVotes],
                 votes := [vote_by_alice 1, vote_by_alice 2,
                           \<lparr>vote_id = js ''00000000-0000-4000-8000-000000000000'',
                            vote_poll_id = poll1_id, vote_user_id = Some alice,
                            vote_option_index = 0, vote_created_at = 1\<rparr>],
                 clock := 2\<rparr>)"
    using submitVote_signed_in_ok [of poll1_id "Finite 0" world_two_votes alice poll1 0]
    by (simp add: uuid_poll1 p2 two poll1_facts)
       (simp add: world_two_votes_def world1_facts)
  have second: "submitVote poll1_id (JSNumber (Finite 0)) world_failing_check =
       (None, world_failing_check
                \<lparr>calls := [SelectPolls, SelectVotes, InsertVotes],
                 votes := [vote_by_alice 0,
                           \<lparr>vote_id = js ''00000000-0000-4000-8000-000000000000'',
                            vote_poll_id = poll1_id, vote_user_id = Some alice,
                            vote_option_index = 0, vote_created_at = 1\<rparr>],
                 clock := 2\<rparr>)"
    using submitVote_check_fault [of poll1_id "Finite 0" world_failing_check alice
        "js ''connection reset''" poll1]
    by (simp add: uuid_poll1 p1 poll1_facts)
       (simp add: world_failing_check_def world1_facts insert_vote_ok)
  from two third one second show ?thesis
    by (intro conjI)
qed

text \<open>
  Claim C4, evaluated where it fails. On a form with no \<open>question\<close> entry,
  \<open>createPoll\<close> and \<open>updatePoll\<close> throw a TypeError instead of returning a result.
\<close>

theorem createPoll_without_question_throws:
  "createPoll form_without_question w = (Threw TypeError, w)
   \<and> updatePoll p form_without_question w = (Threw TypeError, w)"
  by (simp add: createPoll_def updatePoll_def read_poll_form_null_question form_get_1)

text \<open>
  Claim C5, as the code has it. The four rules on the question and on the number of
  options are checked in the order given. The options are then scanned once, in list
  order, and the first option that is empty or longer than 200 code units decides the
  reason: the empty-option reason if it is empty, the length reason otherwise. An option
  that is too long and stands before the first empty option is therefore reported with
  the length reason. The verdict, valid or not, is the one the six rules give.
\<close>

theorem validatePollInput_first_failure:
  "validatePollInput question options =
     (if length question < 3 then Invalid msg_question_short
      else if length question > 500 then Invalid msg_question_long
      else if length options < 2 then Invalid msg_too_few_options
      else if length options > 10 then Invalid msg_too_many_options
      else (case first_bad_option options of
              None \<Rightarrow> Valid
            | Some option \<Rightarrow>
                if option = [] then Invalid msg_option_empty else Invalid msg_option_long))
   \<and> (validatePollInput question options = Valid
        \<longleftrightarrow> spec_validatePollInput question options = Valid)"
proof -
  have "validatePollInput question options =
     (if length question < 3 then Invalid msg_question_short
      else if length question > 500 then Invalid msg_question_long
      else if length options < 2 then Invalid msg_too_few_options
      else if length options > 10 then Invalid msg_too_many_options
      else (case first_bad_option options of
              None \<Rightarrow> Valid
            | Some option \<Rightarrow>
                if option = [] then Invalid msg_option_empty else Invalid msg_option_long))"
    by (auto simp: validatePollInput_def validate_options_loop_first_bad)
  then show ?thesis
    using validatePollInput_valid_iff_spec [of question options] by (rule conjI)
qed

text \<open>
  The claim as stated fails for an option of 201 code units followed by an empty one: the
  code reports the length reason, where the rules taken in the stated order give the
  empty-option reason.
\<close>

theorem validatePollInput_long_option_reported_first:
  "validatePollInput (js ''abc'') [replicate 201 0x61, []] = Invalid msg_option_long
   \<and> spec_validatePollInput (js ''abc'') [replicate 201 0x61, []] = Invalid msg_option_empty
   \<and> msg_option_long \<noteq> msg_option_empty"
  by (simp add: validatePollInput_def spec_validatePollInput_def length_js js_Nil_iff
      msg_option_empty_distinct)

text \<open>
  Claim C6, evaluated where it fails. The sanitizer trims before it deletes the angle
  brackets, so white space next to a leading or trailing bracket stays: the input
  \<open>"< a >"\<close> becomes \<open>" a "\<close>, which begins and ends with a space.
\<close>

theorem sanitizeInput_keeps_inner_whitespace: "sanitizeInput (js ''< a >'') = js '' a ''
   \<and> is_js_whitespace (hd (sanitizeInput (js ''< a >'')))
   \<and> is_js_whitespace (last (sanitizeInput (js ''< a >'')))"
  by (simp add: sanitizeInput_def trim_def remove_angle_brackets_def is_angle_bracket_def
      is_js_whitespace_def js_def)

text \<open>
  Claim C7, as the code has it. The question that is validated is the submitted text
  after sanitization. Whenever the sanitized question is shorter than 3 or longer than 500
  code units, and so whenever the submitted question itself is shorter than 3,
  \<open>createPoll\<close> and \<open>updatePoll\<close> return the validation message for the question and
  leave the world, the store included, exactly as it was.
\<close>

theorem question_out_of_bounds_rejected:
  assumes "formData_get fd (js ''question'') = Some (FormString q)"
      and "formData_getAll fd (js ''options'') = map FormString raw"
      and "length q < 3 \<or> length (sanitizeInput q) < 3 \<or> 500 < length (sanitizeInput q)"
  shows "createPoll fd w =
           (Returned (Some (if length (sanitizeInput q) < 3 then msg_question_short
                            else msg_question_long)), w)
       \<and> updatePoll p fd w =
           (Returned (Some (if length (sanitizeInput q) < 3 then msg_question_short
                            else msg_question_long)), w)"
proof -
  have bounds: "length (sanitizeInput q) < 3 \<or> 500 < length (sanitizeInput q)"
    using assms(3) length_sanitizeInput_le [of q] by linarith
  note form = read_poll_form_strings [OF assms(1,2)]
  note inv = validatePollInput_question_bounds [OF bounds]
  show ?thesis
    using createPoll_invalid [OF form inv] updatePoll_invalid [OF form inv] by simp
qed

text \<open>An instance: the question \<open>ab\<close>.\<close>

theorem question_out_of_bounds_rejected_witness:
  "length (js ''ab'') < 3
   \<and> createPoll form_short (world1\<lparr>auth := SignedIn alice\<rparr>) =
       (Returned (Some msg_question_short), world1\<lparr>auth := SignedIn alice\<rparr>)
   \<and> updatePoll poll1_id form_short (world1\<lparr>auth := SignedIn alice\<rparr>) =
       (Returned (Some msg_question_short), world1\<lparr>auth := SignedIn alice\<rparr>)"
  using question_out_of_bounds_rejected [OF form_short_fields,
      of "world1\<lparr>auth := SignedIn alice\<rparr>" poll1_id]
  by (simp add: sanitizeInput_ab length_js)

text \<open>
  The claim as stated fails for a submitted question of 501 code units, 498 spaces and
  then \<open>abc\<close>: it is longer than 500, yet it is trimmed to \<open>abc\<close>, passes validation,
  and the poll is written to the store.
\<close>

theorem createPoll_padded_question_stored:
  "length padded_question = 501
   \<and> fst (createPoll form_padded (world1\<lparr>auth := SignedIn alice\<rparr>)) = Returned None
   \<and> polls (snd (createPoll form_padded (world1\<lparr>auth := SignedIn alice\<rparr>))) =
       [poll1, \<lparr>poll_id = js ''00000000-0000-4000-8000-000000000000'', poll_user_id = alice,
                       poll_question = js ''abc'', poll_options = [js ''Red'', js ''Blue''],
                       poll_created_at = 1, poll_updated_at = 1\<rparr>]"
  by (simp add: length_padded createPoll_def read_form_padded valid_abc getUser_auth_update
      insert_poll_ok world1_facts revalidatePath_def)

text \<open>
  Claim C8. An identifier that does not match the pattern makes \<open>getPollById\<close> return a
  null poll with the message \<open>Invalid poll ID format\<close> and leaves the world as it was, so
  no round trip to the store is made; \<open>abc\<close> is such an identifier. An identifier that
  matches makes exactly one round trip, the lookup on \<open>polls\<close>.
\<close>

theorem getPollById_checks_format_first:
  "(\<not> uuidRegex_test ident \<longrightarrow> getPollById ident w = ((None, Some msg_invalid_id), w))
   \<and> (uuidRegex_test ident \<longrightarrow> calls (snd (getPollById ident w)) = calls w @ [SelectPolls])"
  by (auto simp: getPollById_def select_poll_by_id_def select_single_def round_trip_def
      single_def split: option.splits prod.splits list.splits)

text \<open>An instance of both halves: \<open>abc\<close>, and the identifier of the example poll.\<close>

theorem getPollById_checks_format_first_witness:
  "\<not> uuidRegex_test (js ''abc'')
   \<and> getPollById (js ''abc'') world1 = ((None, Some msg_invalid_id), world1)
   \<and> calls (snd (getPollById (js ''abc'') world1)) = []
   \<and> uuidRegex_test poll1_id
   \<and> calls (snd (getPollById poll1_id world1)) = [SelectPolls]"
  using getPollById_checks_format_first [of "js ''abc''" world1]
    getPollById_checks_format_first [of poll1_id world1] not_uuid_abc uuid_poll1
  by (simp add: world1_facts)



text \<open>
  Claim C10. When the identity lookup fails, or finds no user, \<open>submitVote\<close> behaves as it
  does for a signed-out caller: same result, same world. The error it returns, if any, is
  one of its own validation messages or a message of the store, so the lookup's error is
  never returned; a vote row it appends has a null voter. Given a well-formed poll
  identifier, an index within the poll's options and a store that reports no failure, the
  vote is inserted with a null voter and the result is a null error.
\<close>

theorem submitVote_auth_failure_is_anonymous:
  assumes "auth w = AuthFailure m \<or> auth w = SignedOut"
  shows "submitVote p i w =
           (fst (submitVote p i (w\<lparr>auth := SignedOut\<rparr>)),
            (snd (submitVote p i (w\<lparr>auth := SignedOut\<rparr>)))\<lparr>auth := auth w\<rparr>)
       \<and> fst (submitVote p i w) \<in>
           {None, Some msg_invalid_id, Some msg_invalid_index, Some msg_poll_not_found,
            Some msg_invalid_index_for_poll, Some msg_invalid_integer} \<union> range (fault w)
       \<and> (votes (snd (submitVote p i w)) = votes w
          \<or> (\<exists>v. votes (snd (submitVote p i w)) = votes w @ [v]
                \<and> vote_poll_id v = p \<and> vote_user_id v = None))
       \<and> (uuidRegex_test p \<and> k \<le> 9 \<and> polls_with_id p w = [poll]
            \<and> k < length (poll_options poll)
            \<and> fault w (length (calls w)) = None \<and> fault w (Suc (length (calls w))) = None
          \<longrightarrow> submitVote p (JSNumber (Finite (of_nat k))) w =
               (None, w\<lparr>calls := calls w @ [SelectPolls, InsertVotes],
                        votes := votes w @
                          [\<lparr>vote_id = new_id w (clock w), vote_poll_id = p,
                            vote_user_id = None, vote_option_index = int k,
                            vote_created_at = clock w\<rparr>],
                        clock := Suc (clock w)\<rparr>))"
proof -
  have anon: "fst (getUser w) = None"
    using assms by (auto simp: getUser_def)
  have ok: "submitVote p (JSNumber (Finite (of_nat k))) w =
               (None, w\<lparr>calls := calls w @ [SelectPolls, InsertVotes],
                        votes := votes w @
                          [\<lparr>vote_id = new_id w (clock w), vote_poll_id = p,
                            vote_user_id = None, vote_option_index = int k,
                            vote_created_at = clock w\<rparr>],
                        clock := Suc (clock w)\<rparr>)"
    if "uuidRegex_test p" "k \<le> 9" "polls_with_id p w = [poll]" "k < length (poll_options poll)"
       "fault w (length (calls w)) = None" "fault w (Suc (length (calls w))) = None"
    using that anon
    by (intro submitVote_anonymous_ok [where poll = poll]) simp_all
  have p4: "uuidRegex_test p \<and> k \<le> 9 \<and> polls_with_id p w = [poll]
            \<and> k < length (poll_options poll)
            \<and> fault w (length (calls w)) = None \<and> fault w (Suc (length (calls w))) = None
          \<longrightarrow> submitVote p (JSNumber (Finite (of_nat k))) w =
               (None, w\<lparr>calls := calls w @ [SelectPolls, InsertVotes],
                        votes := votes w @
                          [\<lparr>vote_id = new_id w (clock w), vote_poll_id = p,
                            vote_user_id = None, vote_option_index = int k,
                            vote_created_at = clock w\<rparr>],
                        clock := Suc (clock w)\<rparr>)"
    using ok by (intro impI) (elim conjE)
  show ?thesis
    by (rule conjI [OF submitVote_failure_as_signed_out [OF assms]
          conjI [OF submitVote_anonymous_error [OF anon]
            conjI [OF submitVote_anonymous_votes [OF anon] p4]]])
qed

text \<open>An instance: the lookup fails, and the vote for option 1 is stored without a voter.\<close>

theorem submitVote_auth_failure_is_anonymous_witness:
  "auth (world1\<lparr>auth := AuthFailure (js ''session expired'')\<rparr>) =
     AuthFailure (js ''session expired'')
   \<and> submitVote poll1_id (JSNumber (Finite 1))
       (world1\<lparr>auth := AuthFailure (js ''session expired'')\<rparr>) =
     (None, world1\<lparr>auth := AuthFailure (js ''session expired''),
                   calls := [SelectPolls, InsertVotes],
                   votes := [\<lparr>vote_id = js ''00000000-0000-4000-8000-000000000000'',
                              vote_poll_id = poll1_id, vote_user_id = None,
                              vote_option_index = 1, vote_created_at = 1\<rparr>],
                   clock := 2\<rparr>)"
proof -
  have a: "auth (world1\<lparr>auth := AuthFailure (js ''session expired'')\<rparr>) =
             AuthFailure (js ''session expired'')
           \<or> auth (world1\<lparr>auth := AuthFailure (js ''session expired'')\<rparr>) = SignedOut"
    by simp
  have p: "polls_with_id poll1_id (world1\<lparr>auth := AuthFailure (js ''session expired'')\<rparr>) =
             [poll1]"
    by (simp add: polls_with_id_def world1_facts poll1_facts)
  show ?thesis
    using submitVote_auth_failure_is_anonymous [OF a, of poll1_id "JSNumber (Finite 1)" 1 poll1,
        THEN conjunct2, THEN conjunct2, THEN conjunct2]
    by (simp add: p uuid_poll1 poll1_facts world1_facts)
qed

end
